theory Spec2Isabelle
  imports Complex_Main "HOL-Library.AList" "HOL-Library.Multiset"
begin

section \<open>Go values and \<^verbatim>\<open>reflect.DeepEqual\<close>\<close>

text \<open>
  The assertions of \<^verbatim>\<open>assertions.go\<close> compare values with the standard
  library's \<^verbatim>\<open>reflect.DeepEqual\<close>. A dynamic Go value is a \<open>val\<close>: the nil
  interface, or a value of a named type. The first field of every constructor is the
  name of the value's Go type, since \<^verbatim>\<open>DeepEqual\<close> compares the types first.
  Only kinds without reference identity are modelled (booleans, integers, floats, strings,
  functions, arrays, structs); pointers, slices, maps and channels as \<^emph>\<open>elements\<close>
  are outside the model. Slices and maps as the \<^emph>\<open>arguments\<close> of the differs are
  lists and association lists of \<open>val\<close>.
\<close>

datatype gofloat = NaN | PosInf | NegInf | Finite real

datatype val =
    VNil
  | VBool string bool
  | VInt string int
  | VFloat string gofloat
  | VString string string
  | VFunc string "nat option"
  | VArray string "val list"
  | VStruct string "val list"

text \<open>The comparison \<^verbatim>\<open>v1.Float() == v2.Float()\<close>: a NaN is equal to nothing.\<close>

fun floatEq :: "gofloat \<Rightarrow> gofloat \<Rightarrow> bool" where
  "floatEq NaN _ = False"
| "floatEq _ NaN = False"
| "floatEq x y = (x = y)"

fun Type :: "val \<Rightarrow> string option" where
  "Type VNil = None"
| "Type (VBool t _) = Some t"
| "Type (VInt t _) = Some t"
| "Type (VFloat t _) = Some t"
| "Type (VString t _) = Some t"
| "Type (VFunc t _) = Some t"
| "Type (VArray t _) = Some t"
| "Type (VStruct t _) = Some t"

text \<open>
  \<^verbatim>\<open>deepValueEqual\<close> of package reflect: invalid (nil interface) values are equal
  only to each other, values of different types are unequal, then the switch over the
  kind. Arrays and structs compare element by element (the loop is \<open>deepValueEqualAll\<close>),
  a function value is equal only to a nil function when it is nil itself.
\<close>

fun deepValueEqual :: "val \<Rightarrow> val \<Rightarrow> bool"
  and deepValueEqualAll :: "val list \<Rightarrow> val list \<Rightarrow> bool" where
  "deepValueEqual VNil y = (y = VNil)"
| "deepValueEqual (VBool t a) y = (case y of VBool u b \<Rightarrow> t = u \<and> a = b | _ \<Rightarrow> False)"
| "deepValueEqual (VInt t a) y = (case y of VInt u b \<Rightarrow> t = u \<and> a = b | _ \<Rightarrow> False)"
| "deepValueEqual (VFloat t a) y = (case y of VFloat u b \<Rightarrow> t = u \<and> floatEq a b | _ \<Rightarrow> False)"
| "deepValueEqual (VString t a) y = (case y of VString u b \<Rightarrow> t = u \<and> a = b | _ \<Rightarrow> False)"
| "deepValueEqual (VFunc t a) y =
     (case y of VFunc u b \<Rightarrow> t = u \<and> a = None \<and> b = None | _ \<Rightarrow> False)"
| "deepValueEqual (VArray t xs) y =
     (case y of VArray u ys \<Rightarrow> t = u \<and> deepValueEqualAll xs ys | _ \<Rightarrow> False)"
| "deepValueEqual (VStruct t xs) y =
     (case y of VStruct u ys \<Rightarrow> t = u \<and> deepValueEqualAll xs ys | _ \<Rightarrow> False)"
| "deepValueEqualAll [] ys = (ys = [])"
| "deepValueEqualAll (x # xs) ys =
     (case ys of [] \<Rightarrow> False | y # ys' \<Rightarrow> deepValueEqual x y \<and> deepValueEqualAll xs ys')"

definition DeepEqual :: "val \<Rightarrow> val \<Rightarrow> bool" where
  "DeepEqual x y =
     (if x = VNil \<or> y = VNil then x = y
      else if Type x \<noteq> Type y then False
      else deepValueEqual x y)"

section \<open>The test handle\<close>

text \<open>
  The assertions use two methods of \<^verbatim>\<open>testing.TB\<close>: \<^verbatim>\<open>Logf\<close> and
  \<^verbatim>\<open>FailNow\<close>. The handle is the state they act on: the failed flag and the
  messages logged, each the format string with its arguments. The type \<open>'k\<close> is the
  key type of the maps that \<^verbatim>\<open>MapsMatch\<close> logs. An error value is nil or a
  reference to an error object: \<open>Err r m\<close> is the object at address \<open>r\<close> whose
  \<^verbatim>\<open>Error()\<close> method returns \<open>m\<close>.
\<close>

datatype goerror = ErrNil | Err nat string

datatype 'k arg =
    AVal val
  | ALen nat
  | AErr goerror
  | ASlice "val list"
  | AMap "('k \<times> val) list"

record 'k TB =
  failed :: bool
  logged :: "(string \<times> 'k arg list) list"

definition Logf :: "'k TB \<Rightarrow> string \<Rightarrow> 'k arg list \<Rightarrow> 'k TB" where
  "Logf tb format args = tb\<lparr>logged := logged tb @ [(format, args)]\<rparr>"

definition FailNow :: "'k TB \<Rightarrow> 'k TB" where
  "FailNow tb = tb\<lparr>failed := True\<rparr>"

definition errorfNow :: "'k TB \<Rightarrow> string \<Rightarrow> 'k arg list \<Rightarrow> 'k TB" where
  "errorfNow tb format args = FailNow (Logf tb format args)"

section \<open>Equal\<close>



section \<open>The sequence differ and SlicesMatch\<close>

text \<open>
  A run-time panic of the Go code is a value of \<open>fault\<close>: an index outside a slice,
  a method call through a nil interface.
\<close>

datatype fault = IndexOutOfRange | NilDereference

text \<open>
  The inner loop of \<^verbatim>\<open>nonMatchingSlices\<close> over the positions \<open>i\<close> of the
  scanned slice. \<open>eq\<close> is the comparison with the element of the outer loop. The
  condition reads \<^verbatim>\<open>visited[i]\<close> first, which panics when \<open>i\<close> is not a
  position of \<open>visited\<close>. The result is \<open>found\<close> and the updated markers.
\<close>

fun scan :: "(val \<Rightarrow> bool) \<Rightarrow> val list \<Rightarrow> nat \<Rightarrow> bool list \<Rightarrow> fault + (bool \<times> bool list)" where
  "scan eq [] i visited = Inr (False, visited)"
| "scan eq (e # es) i visited =
     (if length visited \<le> i then Inl IndexOutOfRange
      else if \<not> visited ! i \<and> eq e then Inr (True, visited[i := True])
      else scan eq es (Suc i) visited)"

text \<open>
  The outer loop: every element of \<open>xs\<close> scans \<open>ys\<close>; an element that finds no
  unclaimed partner is appended to the residue \<open>nonMatched\<close>.
\<close>

fun pass :: "(val \<Rightarrow> val \<Rightarrow> bool) \<Rightarrow> val list \<Rightarrow> val list \<Rightarrow> bool list \<Rightarrow> val list
    \<Rightarrow> fault + (val list \<times> bool list)" where
  "pass eq [] ys visited nonMatched = Inr (nonMatched, visited)"
| "pass eq (x # xs) ys visited nonMatched =
     (case scan (eq x) ys 0 visited of
        Inl f \<Rightarrow> Inl f
      | Inr (found, visited') \<Rightarrow>
          pass eq xs ys visited' (if \<not> found then nonMatched @ [x] else nonMatched))"

definition clear :: "bool list \<Rightarrow> bool list" where
  "clear visited = map (\<lambda>_. False) visited"

definition nonMatchingSlices :: "val list \<Rightarrow> val list \<Rightarrow> fault + (val list \<times> val list)" where
  "nonMatchingSlices a b =
     (case pass (\<lambda>elementA elementB. DeepEqual elementA elementB) a b
             (replicate (length a) False) [] of
        Inl f \<Rightarrow> Inl f
      | Inr (nonMatchedA, visited) \<Rightarrow>
          (case pass (\<lambda>elementB elementA. DeepEqual elementA elementB) b a (clear visited) [] of
             Inl f \<Rightarrow> Inl f
           | Inr (nonMatchedB, _) \<Rightarrow> Inr (nonMatchedA, nonMatchedB)))"

definition SlicesMatch_lengthFormat :: string where
  "SlicesMatch_lengthFormat =
     ''Elements do not match, slices have different lengths\<newline> > expected length: %v\<newline>, < input length:    %v\<newline>''"

definition SlicesMatch_failureFormat :: string where
  "SlicesMatch_failureFormat =
     ''Elements do not match\<newline> > expected: %#v\<newline> < input:    %#v\<newline>''"

definition SlicesMatch :: "'k TB \<Rightarrow> val list \<Rightarrow> val list \<Rightarrow> fault + 'k TB" where
  "SlicesMatch tb expected input =
     (if length expected \<noteq> length input
      then Inr (errorfNow tb SlicesMatch_lengthFormat
                  [ALen (length expected), ALen (length input)])
      else
        (case nonMatchingSlices expected input of
           Inl f \<Rightarrow> Inl f
         | Inr (expectedNoMatch, inputNoMatch) \<Rightarrow>
             if length expectedNoMatch > 0 \<or> length inputNoMatch > 0
             then Inr (errorfNow tb SlicesMatch_failureFormat
                         [ASlice expectedNoMatch, ASlice inputNoMatch])
             else Inr tb))"

section \<open>ErrorsMatch\<close>





section \<open>The mapping differ and MapsMatch\<close>

text \<open>
  A Go map is nil (\<open>None\<close>) or a table of entries with distinct keys, listed in the
  order in which \<^verbatim>\<open>range\<close> happens to visit them. Keys are compared with
  \<open>=\<close>: the key type is one whose \<^verbatim>\<open>==\<close> is reflexive. Reading a nil map is
  reading an empty one. \<open>index zero m k\<close> is \<^verbatim>\<open>v, ok := m[k]\<close>, where
  \<open>zero\<close> is the zero value of the element type.
\<close>

type_synonym 'k gomap = "('k \<times> val) list option"

definition entries :: "'k gomap \<Rightarrow> ('k \<times> val) list" where
  "entries m = (case m of None \<Rightarrow> [] | Some kvs \<Rightarrow> kvs)"


definition index :: "val \<Rightarrow> 'k gomap \<Rightarrow> 'k \<Rightarrow> val \<times> bool" where
  "index zero m k = (case map_of (entries m) k of None \<Rightarrow> (zero, False) | Some v \<Rightarrow> (v, True))"

definition len :: "'k gomap \<Rightarrow> nat" where
  "len m = length (entries m)"

text \<open>The first loop of \<^verbatim>\<open>nonMatchingMaps\<close>, over the entries of \<open>a\<close>.\<close>

fun rangeA :: "val \<Rightarrow> 'k gomap \<Rightarrow> ('k \<times> val) list \<Rightarrow> ('k \<times> val) list \<times> ('k \<times> val) list
    \<Rightarrow> ('k \<times> val) list \<times> ('k \<times> val) list" where
  "rangeA zero b [] (aout, bout) = (aout, bout)"
| "rangeA zero b ((ak, av) # rest) (aout, bout) =
     (let (bv, ok) = index zero b ak;
          aout = (if \<not> ok then AList.update ak av aout else aout)
      in if \<not> DeepEqual av bv
         then rangeA zero b rest (AList.update ak av aout, AList.update ak bv bout)
         else rangeA zero b rest (aout, bout))"

text \<open>The second loop, over the entries of \<open>b\<close>.\<close>

fun rangeB :: "val \<Rightarrow> 'k gomap \<Rightarrow> ('k \<times> val) list \<Rightarrow> ('k \<times> val) list \<Rightarrow> ('k \<times> val) list" where
  "rangeB zero a [] bout = bout"
| "rangeB zero a ((bk, bv) # rest) bout =
     (let (_, ok) = index zero a bk
      in if \<not> ok then rangeB zero a rest (AList.update bk bv bout)
         else rangeB zero a rest bout)"

definition nonMatchingMaps :: "val \<Rightarrow> 'k gomap \<Rightarrow> 'k gomap \<Rightarrow> 'k gomap \<times> 'k gomap" where
  "nonMatchingMaps zero a b =
     (let (aout, bout) = rangeA zero b (entries a) ([], []);
          bout = rangeB zero a (entries b) bout
      in (Some aout, Some bout))"



section \<open>Panic capture\<close>

text \<open>
  The callback \<^verbatim>\<open>fn\<close> is modelled by how its call ends: it returns, or it
  panics with a payload (the value that \<^verbatim>\<open>recover\<close> yields for it). The
  goroutine's pending panic is an optional payload. \<open>recover\<close> returns the payload and
  stops the panic; without a pending panic it returns nil. \<open>debugStack\<close> is what
  \<^verbatim>\<open>debug.Stack()\<close> returns when the deferred function calls it. A panic still
  pending when the deferred function has run leaves \<open>panicHandler\<close> as \<open>Inl\<close>.
\<close>

datatype outcome = Returns | Panics val

definition recover :: "val option \<Rightarrow> val \<times> val option" where
  "recover pending = (case pending of None \<Rightarrow> (VNil, None) | Some v \<Rightarrow> (v, None))"

definition panicHandler :: "string \<Rightarrow> outcome \<Rightarrow> val + (bool \<times> val \<times> string)" where
  "panicHandler debugStack fn =
     (let msg = VNil; stack = [];
          panicked = True;
          (pending, panicked) =
             (case fn of Returns \<Rightarrow> (None, False) | Panics v \<Rightarrow> (Some v, panicked));
          (msg, pending) = recover pending;
          stack = (if panicked then debugStack else stack)
      in case pending of Some v \<Rightarrow> Inl v | None \<Rightarrow> Inr (panicked, msg, stack))"

section \<open>Notions used in the statements\<close>

text \<open>
  \<open>containsNaN v\<close>: the value is a floating-point NaN or holds one in an array element
  or a struct field. \<open>containsNaNOrFunc v\<close>: it is or holds a NaN or a non-nil function
  value.
\<close>

fun containsNaN :: "val \<Rightarrow> bool"
  and containsNaNAny :: "val list \<Rightarrow> bool" where
  "containsNaN (VFloat t f) = (f = NaN)"
| "containsNaN (VArray t xs) = containsNaNAny xs"
| "containsNaN (VStruct t xs) = containsNaNAny xs"
| "containsNaN VNil = False"
| "containsNaN (VBool t b) = False"
| "containsNaN (VInt t n) = False"
| "containsNaN (VString t s) = False"
| "containsNaN (VFunc t f) = False"
| "containsNaNAny [] = False"
| "containsNaNAny (x # xs) = (containsNaN x \<or> containsNaNAny xs)"

fun containsNaNOrFunc :: "val \<Rightarrow> bool"
  and containsNaNOrFuncAny :: "val list \<Rightarrow> bool" where
  "containsNaNOrFunc (VFloat t f) = (f = NaN)"
| "containsNaNOrFunc (VFunc t f) = (f \<noteq> None)"
| "containsNaNOrFunc (VArray t xs) = containsNaNOrFuncAny xs"
| "containsNaNOrFunc (VStruct t xs) = containsNaNOrFuncAny xs"
| "containsNaNOrFunc VNil = False"
| "containsNaNOrFunc (VBool t b) = False"
| "containsNaNOrFunc (VInt t n) = False"
| "containsNaNOrFunc (VString t s) = False"
| "containsNaNOrFuncAny [] = False"
| "containsNaNOrFuncAny (x # xs) = (containsNaNOrFunc x \<or> containsNaNOrFuncAny xs)"

text \<open>The elements of \<open>ys\<close> whose marker in \<open>visited\<close> is not set, as a multiset.\<close>

definition unclaimed :: "val list \<Rightarrow> bool list \<Rightarrow> val multiset" where
  "unclaimed ys visited = mset (map fst (filter (\<lambda>(y, v). \<not> v) (zip ys visited)))"


section \<open>The handle after a failure\<close>

lemma failed_errorfNow: "failed (errorfNow tb format args) = True"
  by (simp add: errorfNow_def FailNow_def Logf_def)

lemma logged_errorfNow: "logged (errorfNow tb format args) = logged tb @ [(format, args)]"
  by (simp add: errorfNow_def FailNow_def Logf_def)

section \<open>The mapping differ on a key that \<open>b\<close> lacks\<close>

text \<open>
  Claim C1. For a key \<open>k\<close> of \<open>a\<close> that is absent from \<open>b\<close>, the entry of \<open>a\<close>
  goes to residueA and the first pass is to add nothing to residueB. The code
  falls through from the branch \<^verbatim>\<open>!ok\<close> to the comparison of \<open>a[k]\<close> with the
  zero value that the failed lookup returned: for \<^verbatim>\<open>a = map[string]int{"x": 1}\<close>
  and an empty \<open>b\<close>, residueB receives the entry \<open>("x", 0)\<close>, a key that \<open>b\<close> does not
  contain.
\<close>

theorem nonMatchingMaps_absent_key_zero_entry:
  "nonMatchingMaps (VInt ''int'' 0) (Some [(''x'', VInt ''int'' 1)]) (Some [])
     = (Some [(''x'', VInt ''int'' 1)], Some [(''x'', VInt ''int'' 0)])"
  by (simp add: nonMatchingMaps_def entries_def index_def DeepEqual_def)

section \<open>The concrete scenario of SlicesMatch\<close>

text \<open>
  Claim C3. For expected \<open>[1,2,3,4,5]\<close> and input \<open>[5,4,1,4,2]\<close> the differ returns the
  residues \<open>[3]\<close> and \<open>[4]\<close>, and \<open>SlicesMatch\<close> fails, logging the two residues.
\<close>

theorem SlicesMatch_concrete_scenario:
  "nonMatchingSlices
     [VInt ''int'' 1, VInt ''int'' 2, VInt ''int'' 3, VInt ''int'' 4, VInt ''int'' 5]
     [VInt ''int'' 5, VInt ''int'' 4, VInt ''int'' 1, VInt ''int'' 4, VInt ''int'' 2]
     = Inr ([VInt ''int'' 3], [VInt ''int'' 4])
   \<and> SlicesMatch tb
     [VInt ''int'' 1, VInt ''int'' 2, VInt ''int'' 3, VInt ''int'' 4, VInt ''int'' 5]
     [VInt ''int'' 5, VInt ''int'' 4, VInt ''int'' 1, VInt ''int'' 4, VInt ''int'' 2]
     = Inr (errorfNow tb SlicesMatch_failureFormat
              [ASlice [VInt ''int'' 3], ASlice [VInt ''int'' 4]])
   \<and> failed (errorfNow tb SlicesMatch_failureFormat
              [ASlice [VInt ''int'' 3], ASlice [VInt ''int'' 4]])"
proof -
  have d: "nonMatchingSlices
     [VInt ''int'' 1, VInt ''int'' 2, VInt ''int'' 3, VInt ''int'' 4, VInt ''int'' 5]
     [VInt ''int'' 5, VInt ''int'' 4, VInt ''int'' 1, VInt ''int'' 4, VInt ''int'' 2]
     = Inr ([VInt ''int'' 3], [VInt ''int'' 4])"
    by (simp add: nonMatchingSlices_def clear_def DeepEqual_def)
  show ?thesis
    by (simp add: d SlicesMatch_def failed_errorfNow)
qed

section \<open>Slices of different lengths\<close>

lemma formats_differ: "SlicesMatch_lengthFormat \<noteq> SlicesMatch_failureFormat"
  by (simp add: SlicesMatch_lengthFormat_def SlicesMatch_failureFormat_def)

text \<open>
  Claim C5. For slices of different lengths \<open>SlicesMatch\<close> fails with the diagnostic
  that carries the two lengths and nothing else: the outcome is a function of the handle
  and the two lengths alone, so no element is compared and no result of the differ enters
  it. The format of the length diagnostic is not the format of the diagnostic for
  non-matching elements.
\<close>

theorem SlicesMatch_length_mismatch:
  assumes "length expected \<noteq> length input"
  shows "SlicesMatch tb expected input
           = Inr (errorfNow tb SlicesMatch_lengthFormat
                    [ALen (length expected), ALen (length input)])
         \<and> failed (errorfNow tb SlicesMatch_lengthFormat
                    [ALen (length expected), ALen (length input)])
         \<and> logged (errorfNow tb SlicesMatch_lengthFormat
                    [ALen (length expected), ALen (length input)])
             = logged tb @ [(SlicesMatch_lengthFormat,
                              [ALen (length expected), ALen (length input)])]
         \<and> SlicesMatch_lengthFormat \<noteq> SlicesMatch_failureFormat"
  using assms by (simp add: SlicesMatch_def failed_errorfNow logged_errorfNow formats_differ)

theorem SlicesMatch_length_mismatch_witness:
  "length [VInt ''int'' 1] \<noteq> length [VInt ''int'' 2, VInt ''int'' 3]
   \<and> SlicesMatch (\<lparr>failed = False, logged = []\<rparr> :: unit TB)
         [VInt ''int'' 1] [VInt ''int'' 2, VInt ''int'' 3]
       = Inr (\<lparr>failed = True,
               logged = [(SlicesMatch_lengthFormat, [ALen 1, ALen 2])]\<rparr>)"
  using SlicesMatch_length_mismatch
          [of "[VInt ''int'' 1]" "[VInt ''int'' 2, VInt ''int'' 3]"
              "\<lparr>failed = False, logged = []\<rparr> :: unit TB"]
  by (simp add: errorfNow_def FailNow_def Logf_def)

section \<open>ErrorsMatch\<close>



section \<open>Panic capture\<close>

text \<open>
  Claim C9. When the callback returns, \<open>panicHandler\<close> returns \<open>panicked = False\<close>, a
  nil recovered value and an empty stack. When the callback panics, it returns
  \<open>panicked = True\<close>, the payload and the stack snapshot, which is not empty since
  \<^verbatim>\<open>debug.Stack()\<close> returns a non-empty trace; the panic does not leave
  \<open>panicHandler\<close>.
\<close>

theorem panicHandler_result:
  assumes "debugStack \<noteq> []"
  shows "panicHandler debugStack Returns = Inr (False, VNil, [])
         \<and> (\<exists>stack. panicHandler debugStack (Panics v) = Inr (True, v, stack)
                \<and> stack = debugStack \<and> stack \<noteq> [])
         \<and> (\<forall>p. panicHandler debugStack (Panics v) \<noteq> Inl p)"
  using assms by (simp add: panicHandler_def recover_def)

theorem panicHandler_result_witness:
  "''goroutine 1 [running]:'' \<noteq> []
   \<and> panicHandler ''goroutine 1 [running]:'' Returns = Inr (False, VNil, [])
   \<and> (\<exists>stack. panicHandler ''goroutine 1 [running]:'' (Panics (VString ''string'' ''boom''))
                  = Inr (True, VString ''string'' ''boom'', stack) \<and> stack \<noteq> [])"
  using panicHandler_result [of "''goroutine 1 [running]:''" "VString ''string'' ''boom''"]
  by simp

section \<open>Properties of \<open>DeepEqual\<close>\<close>

lemma floatEq_sym: "floatEq a b = floatEq b a"
  by (cases a; cases b) auto

lemma floatEq_refl: "floatEq a a = (a \<noteq> NaN)"
  by (cases a) auto

lemma floatEq_eq: "floatEq a b \<Longrightarrow> a = b"
  by (cases a; cases b) auto

lemma deepValueEqual_VNil_right: "deepValueEqual y VNil = (y = VNil)"
  by (cases y) auto

lemma deepValueEqualAll_Nil_right: "deepValueEqualAll ys [] = (ys = [])"
  by (cases ys) auto

lemma deepValueEqual_sym:
  "deepValueEqual x y = deepValueEqual y x"
  "deepValueEqualAll xs ys = deepValueEqualAll ys xs"
proof (induction x y and xs ys rule: deepValueEqual_deepValueEqualAll.induct)
  case (4 t a y)
  then show ?case by (cases y) (auto simp: floatEq_sym)
next
  case (10 x xs ys)
  then show ?case by (cases ys) auto
qed (auto simp: deepValueEqual_VNil_right deepValueEqualAll_Nil_right split: val.splits list.splits)

lemma DeepEqual_sym: "DeepEqual x y = DeepEqual y x"
  unfolding DeepEqual_def using deepValueEqual_sym(1) [of x y] by auto

lemma deepValueEqual_refl:
  "deepValueEqual v v = (\<not> containsNaNOrFunc v)"
  "deepValueEqualAll vs vs = (\<not> containsNaNOrFuncAny vs)"
  by (induction v and vs rule: containsNaNOrFunc_containsNaNOrFuncAny.induct)
     (auto simp: floatEq_refl)

lemma DeepEqual_refl: "DeepEqual v v = (\<not> containsNaNOrFunc v)"
  by (cases "v = VNil") (simp_all add: DeepEqual_def deepValueEqual_refl)

lemma deepValueEqual_eq:
  "deepValueEqual x y \<Longrightarrow> x = y"
  "deepValueEqualAll xs ys \<Longrightarrow> xs = ys"
proof (induction x y and xs ys rule: deepValueEqual_deepValueEqualAll.induct)
  case (4 t a y)
  then show ?case by (cases y) (auto dest: floatEq_eq)
next
  case (10 x xs ys)
  then show ?case by (cases ys) auto
qed (auto split: val.splits list.splits)

lemma DeepEqual_eq: "DeepEqual x y \<Longrightarrow> x = y"
  unfolding DeepEqual_def using deepValueEqual_eq(1) [of x y] by (auto split: if_splits)

lemma DeepEqual_iff: "\<not> containsNaNOrFunc x \<Longrightarrow> DeepEqual x y = (x = y)"
  using DeepEqual_eq DeepEqual_refl by blast

lemma DeepEqual_iff': "\<not> containsNaNOrFunc x \<Longrightarrow> DeepEqual y x = (x = y)"
  using DeepEqual_iff DeepEqual_sym by blast

section \<open>Equal of a value and itself\<close>




section \<open>The loops of the sequence differ\<close>

text \<open>With a marker for every position scanned, the inner loop reads in bounds.\<close>

lemma scan_in_bounds:
  "i + length es \<le> length visited \<Longrightarrow>
   \<exists>found visited'. scan eq es i visited = Inr (found, visited')
      \<and> length visited' = length visited"
  by (induction es arbitrary: i) auto

lemma pass_in_bounds:
  "length ys \<le> length visited \<Longrightarrow>
   \<exists>nonMatched' visited'. pass eq xs ys visited nonMatched = Inr (nonMatched', visited')
      \<and> length visited' = length visited"
proof (induction xs arbitrary: visited nonMatched)
  case Nil
  then show ?case by simp
next
  case (Cons x xs)
  from scan_in_bounds [of 0 ys visited "eq x"] Cons.prems
  obtain found visited' where s: "scan (eq x) ys 0 visited = Inr (found, visited')"
    and l: "length visited' = length visited" by auto
  from Cons.IH [of visited' "if \<not> found then nonMatched @ [x] else nonMatched"] l Cons.prems
  show ?case by (simp add: s)
qed

lemma clear_replicate: "clear visited = replicate (length visited) False"
  by (simp add: clear_def map_replicate_const)



section \<open>Index safety of the sequence differ\<close>



section \<open>Greedy matching and multisets\<close>

lemma unclaimed_Nil [simp]: "unclaimed [] visited = {#}"
  by (simp add: unclaimed_def)

lemma unclaimed_Cons [simp]:
  "unclaimed (y # ys) (v # visited)
     = (if v then unclaimed ys visited else add_mset y (unclaimed ys visited))"
  by (simp add: unclaimed_def)

lemma unclaimed_replicate: "unclaimed ys (replicate (length ys) False) = mset ys"
  by (induction ys) auto

text \<open>
  The inner loop at position \<open>length pre\<close>, with the markers split into those already
  passed and those of the elements still to scan: when an unclaimed element satisfies
  \<open>eq\<close>, the loop claims one such element and leaves the other markers alone.
\<close>

lemma scan_found:
  "length es \<le> length post \<Longrightarrow> \<exists>y. y \<in># unclaimed es post \<and> eq y \<Longrightarrow>
   \<exists>post' y. scan eq es (length pre) (pre @ post) = Inr (True, pre @ post')
      \<and> length post' = length post \<and> eq y \<and> y \<in># unclaimed es post
      \<and> unclaimed es post' = unclaimed es post - {#y#}"
proof (induction es arbitrary: pre post)
  case Nil
  then show ?case by simp
next
  case (Cons e es)
  from Cons.prems(1) obtain v post0 where post: "post = v # post0"
    by (cases post) auto
  show ?case
  proof (cases "\<not> v \<and> eq e")
    case True
    then have "scan eq (e # es) (length pre) (pre @ post) = Inr (True, pre @ True # post0)"
      by (simp add: post)
    with True show ?thesis
      by (intro exI [of _ "True # post0"] exI [of _ e]) (simp add: post)
  next
    case False
    from Cons.prems(2) obtain y where y: "y \<in># unclaimed (e # es) post" "eq y" by blast
    with False have y': "y \<in># unclaimed es post0"
      by (auto simp: post split: if_splits)
    from Cons.prems(1) have len: "length es \<le> length post0" by (simp add: post)
    from Cons.IH [of post0 "pre @ [v]", OF len] y' y(2)
    obtain post' z where
      s: "scan eq es (Suc (length pre)) (pre @ v # post0) = Inr (True, pre @ v # post')"
      and l: "length post' = length post0" and z: "eq z" "z \<in># unclaimed es post0"
      and u: "unclaimed es post' = unclaimed es post0 - {#z#}"
      by auto
    from False s have "scan eq (e # es) (length pre) (pre @ post)
        = Inr (True, pre @ v # post')"
      by (auto simp: post)
    moreover have "unclaimed (e # es) (v # post') = unclaimed (e # es) post - {#z#}"
      using u z(2) by (simp add: post)
    moreover have "z \<in># unclaimed (e # es) post"
      using z(2) by (simp add: post)
    ultimately show ?thesis using l z(1)
      by (intro exI [of _ "v # post'"] exI [of _ z]) (simp add: post)
  qed
qed

text \<open>
  The outer loop: when the elements of \<open>xs\<close> are, with their multiplicities, among the
  unclaimed elements of \<open>ys\<close>, and \<open>eq\<close> is equality on them, every element finds a
  partner and the residue stays as it was.
\<close>

lemma pass_all_matched:
  "length ys \<le> length visited \<Longrightarrow> mset xs \<subseteq># unclaimed ys visited \<Longrightarrow>
   \<forall>x \<in> set xs. \<forall>y. eq x y = (x = y) \<Longrightarrow>
   \<exists>visited'. pass eq xs ys visited nonMatched = Inr (nonMatched, visited')"
proof (induction xs arbitrary: visited)
  case Nil
  then show ?case by simp
next
  case (Cons x xs)
  have "x \<in># unclaimed ys visited"
    using Cons.prems(2) by (simp add: insert_subset_eq_iff)
  moreover have "eq x x" using Cons.prems(3) by simp
  ultimately have "\<exists>y. y \<in># unclaimed ys visited \<and> eq x y" by blast
  from scan_found [of ys visited "eq x" "[]", OF Cons.prems(1) this]
  obtain visited' y where s: "scan (eq x) ys 0 visited = Inr (True, visited')"
    and l: "length visited' = length visited" and y: "eq x y"
    and u: "unclaimed ys visited' = unclaimed ys visited - {#y#}"
    by auto
  from y Cons.prems(3) have "y = x" by simp
  with u Cons.prems(2) have sub: "mset xs \<subseteq># unclaimed ys visited'"
    by (simp add: insert_subset_eq_iff)
  from Cons.IH [of visited', OF _ sub] l Cons.prems(1) Cons.prems(3)
  obtain visited'' where "pass eq xs ys visited' nonMatched = Inr (nonMatched, visited'')"
    by auto
  then show ?case by (simp add: s)
qed

lemma nonMatchingSlices_permutation:
  assumes "mset input = mset expected"
    and "\<forall>x \<in> set expected. \<not> containsNaNOrFunc x"
  shows "nonMatchingSlices expected input = Inr ([], [])"
proof -
  have len: "length input = length expected"
    using assms(1) by (rule mset_eq_length)
  have set: "set input = set expected"
    using assms(1) by (rule mset_eq_setD)
  have "\<exists>visited. pass DeepEqual expected input (replicate (length expected) False) []
          = Inr ([], visited)"
    using assms by (intro pass_all_matched)
      (simp_all add: len [symmetric] unclaimed_replicate DeepEqual_iff)
  then obtain va where 1:
    "pass DeepEqual expected input (replicate (length expected) False) [] = Inr ([], va)" ..
  from pass_in_bounds [of input "replicate (length expected) False" DeepEqual expected "[]"]
    1 len have la: "length va = length expected" by auto
  have "\<exists>visited. pass (\<lambda>elementB elementA. DeepEqual elementA elementB) input expected
          (replicate (length expected) False) [] = Inr ([], visited)"
    using assms set by (intro pass_all_matched)
      (simp_all add: unclaimed_replicate DeepEqual_iff')
  then obtain vb where 2:
    "pass (\<lambda>elementB elementA. DeepEqual elementA elementB) input expected
          (replicate (length expected) False) [] = Inr ([], vb)" ..
  show ?thesis
    by (simp add: nonMatchingSlices_def 1 2 clear_replicate la)
qed

section \<open>SlicesMatch of a slice and a permutation of it\<close>

text \<open>
  Claim C4 states that \<open>SlicesMatch\<close> passes for every slice and every permutation of
  it. The elements are compared with \<^verbatim>\<open>reflect.DeepEqual\<close>, under which a NaN
  and a non-nil function value are not equal to themselves, so such an element never finds
  a partner. As amended: for every slice whose elements neither are nor contain a NaN or a
  non-nil function value, and every permutation of it (duplicates counted with their
  multiplicity), both residues of the differ are empty and \<open>SlicesMatch\<close> passes.
\<close>

theorem SlicesMatch_permutation:
  assumes "mset input = mset expected"
    and "\<forall>x \<in> set expected. \<not> containsNaNOrFunc x"
  shows "nonMatchingSlices expected input = Inr ([], [])
         \<and> SlicesMatch tb expected input = Inr tb"
proof -
  have "length expected = length input"
    using assms(1) mset_eq_length by fastforce
  then show ?thesis
    using nonMatchingSlices_permutation [OF assms] by (simp add: SlicesMatch_def)
qed

theorem SlicesMatch_permutation_witness:
  "mset [VInt ''int'' 2, VInt ''int'' 1, VInt ''int'' 2]
     = mset [VInt ''int'' 1, VInt ''int'' 2, VInt ''int'' 2]
   \<and> \<not> containsNaNOrFuncAny [VInt ''int'' 1, VInt ''int'' 2, VInt ''int'' 2]
   \<and> SlicesMatch (\<lparr>failed = False, logged = []\<rparr> :: unit TB)
         [VInt ''int'' 1, VInt ''int'' 2, VInt ''int'' 2]
         [VInt ''int'' 2, VInt ''int'' 1, VInt ''int'' 2]
       = Inr \<lparr>failed = False, logged = []\<rparr>"
proof -
  have m: "mset [VInt ''int'' 2, VInt ''int'' 1, VInt ''int'' 2]
     = mset [VInt ''int'' 1, VInt ''int'' 2, VInt ''int'' 2]"
    by simp
  have g: "\<forall>x \<in> set [VInt ''int'' 1, VInt ''int'' 2, VInt ''int'' 2]. \<not> containsNaNOrFunc x"
    by simp
  show ?thesis
    using m SlicesMatch_permutation [OF m g, of "\<lparr>failed = False, logged = []\<rparr> :: unit TB"]
    by simp
qed

text \<open>The claim as stated fails for the one-element slice holding a NaN.\<close>

theorem SlicesMatch_permutation_counterexample:
  "mset [VFloat ''float64'' NaN] = mset [VFloat ''float64'' NaN]
   \<and> SlicesMatch (\<lparr>failed = False, logged = []\<rparr> :: unit TB)
         [VFloat ''float64'' NaN] [VFloat ''float64'' NaN]
       = Inr \<lparr>failed = True,
              logged = [(SlicesMatch_failureFormat,
                         [ASlice [VFloat ''float64'' NaN], ASlice [VFloat ''float64'' NaN]])]\<rparr>"
  by (simp add: SlicesMatch_def nonMatchingSlices_def clear_def DeepEqual_def
        errorfNow_def FailNow_def Logf_def)

section \<open>The loops of the mapping differ, key by key\<close>

lemma entries_simps [simp]: "entries None = []" "entries (Some kvs) = kvs"
  by (simp_all add: entries_def)










section \<open>Maps that agree have the same size\<close>



section \<open>MapsMatch of a map and itself, of nil and the empty map\<close>




section \<open>Swapping the arguments of the differs\<close>





section \<open>Symmetry of the comparison\<close>




end
